theory Spec2Isabelle
  imports Complex_Main "HOL-Library.AList"
begin

section \<open>JavaScript values used by the trading app\<close>

text \<open>
  A JavaScript object with string keys is an association list with pairwise different keys,
  in insertion order: \<open>obj[k]\<close> is \<open>map_of obj k\<close>, the assignment \<open>obj[k] = v\<close> is
  \<open>AList.update k v obj\<close> (an existing key keeps its place, a new key goes to the end),
  \<open>delete obj[k]\<close> is \<open>AList.delete k obj\<close>, and \<open>Object.keys(obj).length > 0\<close> is
  \<open>obj \<noteq> []\<close>.

  A JavaScript number is modelled as a real: rounding, overflow and \<open>NaN\<close> of IEEE doubles
  are left out, except for the \<open>NaN\<close> that \<open>parseFloat\<close> returns, which is \<open>None\<close> below.
\<close>

type_synonym 'v obj = "(string \<times> 'v) list"

text \<open>The object spread \<open>{ ...prev, ...new }\<close>: the entries of \<open>new\<close> are assigned, in
  order, onto a copy of \<open>prev\<close>.\<close>

definition spread :: "'v obj \<Rightarrow> 'v obj \<Rightarrow> 'v obj" where
  "spread prev new = fold (\<lambda>(k, v). AList.update k v) new prev"

section \<open>The portfolio store (useStore)\<close>

record holding =
  quantity :: real
  avgCost :: real

datatype trade_type = Buy | Sell

record transaction =
  tx_id :: int
  tx_type :: trade_type
  tx_symbol :: string
  tx_quantity :: real
  tx_price :: real
  tx_total :: real
  tx_timestamp :: int

record store =
  balance :: real
  holdings :: "holding obj"
  transactions :: "transaction list"

text \<open>The portfolio a new user gets from \<open>signup\<close>.\<close>

definition initialStore :: store where
  "initialStore = \<lparr>balance = 100000, holdings = [], transactions = []\<rparr>"

section \<open>Quotes\<close>

record price_data =
  price :: real
  change :: real
  ptype :: string
  tradeable :: bool
  pd_lastUpdate :: int

definition canTrade :: "price_data obj \<Rightarrow> string \<Rightarrow> bool" where
  "canTrade prices symbol =
     (case map_of prices symbol of
        None \<Rightarrow> False
      | Some priceData \<Rightarrow> tradeable priceData = True)"

section \<open>executeTrade\<close>

text \<open>
  What a call of \<open>executeTrade\<close> does besides changing the store: it returns without any
  message (\<open>Ignored\<close>), it shows an \<open>alert\<close> and returns (\<open>Alert\<close>), or it carries the
  trade out (\<open>Traded\<close>).
\<close>

datatype outcome = Ignored | Alert string | Traded

text \<open>
  \<open>executeTrade prices selectedSymbol now type tradeAmount store\<close>: \<open>prices\<close>,
  \<open>selectedSymbol\<close> and \<open>store\<close> are the values of the current render, \<open>now\<close> is the clock
  (\<open>Date.now()\<close>), \<open>tradeAmount\<close> is the value of \<open>parseFloat(tradeAmount)\<close> with \<open>None\<close> for
  \<open>NaN\<close>, and \<open>type\<close> is \<open>Buy\<close> for \<open>'buy'\<close> and \<open>Sell\<close> for the else branch. The state
  setters of one call are applied together, to the store of the render the call was made in.
  The time stamp of a transaction is kept as the instant \<open>now\<close> rather than as its ISO string,
  and the clearing of the input field after a trade is not part of the store.
\<close>

definition executeTrade ::
  "price_data obj \<Rightarrow> string \<Rightarrow> int \<Rightarrow> trade_type \<Rightarrow> real option \<Rightarrow> store \<Rightarrow> outcome \<times> store"
where
  "executeTrade prices selectedSymbol now type tradeAmount store =
     (case tradeAmount of
        None \<Rightarrow> (Ignored, store)
      | Some qty \<Rightarrow>
          if qty \<le> 0 then (Ignored, store)
          else
            (case map_of prices selectedSymbol of
               None \<Rightarrow> (Ignored, store)
             | Some priceData \<Rightarrow>
                 if price priceData = 0 then (Ignored, store)
                 else if \<not> canTrade prices selectedSymbol then
                   (Alert ''Trading is currently unavailable for this symbol.'', store)
                 else
                   (let p = price priceData; cost = qty * p in
                    case type of
                      Buy \<Rightarrow>
                        if cost > balance store then (Alert ''Insufficient balance!'', store)
                        else
                          (Traded,
                           \<lparr>balance = balance store - cost,
                            holdings =
                              AList.update selectedSymbol
                                \<lparr>quantity =
                                   (case map_of (holdings store) selectedSymbol of
                                      None \<Rightarrow> 0 | Some h \<Rightarrow> quantity h) + qty,
                                 avgCost =
                                   (case map_of (holdings store) selectedSymbol of
                                      Some h \<Rightarrow> ((avgCost h * quantity h) + cost) / (quantity h + qty)
                                    | None \<Rightarrow> p)\<rparr>
                                (holdings store),
                            transactions =
                              \<lparr>tx_id = now, tx_type = Buy, tx_symbol = selectedSymbol,
                               tx_quantity = qty, tx_price = p, tx_total = cost,
                               tx_timestamp = now\<rparr> # transactions store\<rparr>)
                    | Sell \<Rightarrow>
                        (case map_of (holdings store) selectedSymbol of
                           None \<Rightarrow> (Alert ''Insufficient holdings!'', store)
                         | Some h \<Rightarrow>
                             if quantity h < qty then (Alert ''Insufficient holdings!'', store)
                             else
                               (Traded,
                                \<lparr>balance = balance store + cost,
                                 holdings =
                                   (if quantity h = qty
                                    then AList.delete selectedSymbol (holdings store)
                                    else AList.update selectedSymbol
                                           (h\<lparr>quantity := quantity h - qty\<rparr>) (holdings store)),
                                 transactions =
                                   \<lparr>tx_id = now, tx_type = Sell, tx_symbol = selectedSymbol,
                                    tx_quantity = qty, tx_price = p, tx_total = cost,
                                    tx_timestamp = now\<rparr> # transactions store\<rparr>)))))"

text \<open>One click on Buy or Sell, with everything the handler reads.\<close>

record call =
  c_prices :: "price_data obj"
  c_symbol :: string
  c_now :: int
  c_type :: trade_type
  c_amount :: "real option"

definition doCall :: "call \<Rightarrow> store \<Rightarrow> outcome \<times> store" where
  "doCall c s = executeTrade (c_prices c) (c_symbol c) (c_now c) (c_type c) (c_amount c) s"

text \<open>A sequence of clicks, each handled in the render that follows the previous one.\<close>

fun runTrades :: "call list \<Rightarrow> store \<Rightarrow> store" where
  "runTrades [] s = s"
| "runTrades (c # cs) s = runTrades cs (snd (doCall c s))"

text \<open>Every quote on offer has a positive price, as a quote of the data model has.\<close>

definition quotesPositive :: "price_data obj \<Rightarrow> bool" where
  "quotesPositive prices = list_all (\<lambda>(k, pd). 0 < price pd) prices"

definition holdingsPositive :: "holding obj \<Rightarrow> bool" where
  "holdingsPositive hs = list_all (\<lambda>(k, h). 0 < quantity h) hs"

text \<open>A quote as the feed stores it.\<close>

definition quote :: "real \<Rightarrow> price_data" where
  "quote p = \<lparr>price = p, change = 0, ptype = ''crypto'', tradeable = True, pd_lastUpdate = 0\<rparr>"

text \<open>The cost basis carried by the books: cash plus quantity times average cost of
  every holding.\<close>

definition bookValue :: "store \<Rightarrow> real" where
  "bookValue s = balance s + sum_list (map (\<lambda>(k, h). quantity h * avgCost h) (holdings s))"

text \<open>The gain a call realises: for a sell that is carried out, the quantity sold times the
  difference between the sale price and the holding's average cost; nothing otherwise.\<close>

definition realisedGain :: "call \<Rightarrow> store \<Rightarrow> real" where
  "realisedGain c s =
     (case (fst (doCall c s), c_type c, c_amount c, map_of (c_prices c) (c_symbol c),
            map_of (holdings s) (c_symbol c)) of
        (Traded, Sell, Some q, Some pd, Some h) \<Rightarrow> q * (price pd - avgCost h)
      | _ \<Rightarrow> 0)"

fun totalRealised :: "call list \<Rightarrow> store \<Rightarrow> real" where
  "totalRealised [] s = 0"
| "totalRealised (c # cs) s = realisedGain c s + totalRealised cs (snd (doCall c s))"

text \<open>The cash put into buys minus the cash taken out by sells, read off the
  transaction log.\<close>

definition netBought :: "transaction list \<Rightarrow> real" where
  "netBought txs =
     sum_list (map (\<lambda>t. if tx_type t = Buy then tx_total t else - tx_total t) txs)"

definition ledgerInv :: "store \<Rightarrow> bool" where
  "ledgerInv s = (distinct (map fst (holdings s)) \<and> holdingsPositive (holdings s))"

section \<open>The price feed (useMarketData)\<close>

text \<open>
  One entry of the quote source's JSON answer. A field that is absent is \<open>None\<close>; a field
  that is present is a number.
\<close>

record coin_quote =
  usd :: "real option"
  usd_24h_change :: "real option"

text \<open>
  What \<open>await fetch(...)\<close> followed by \<open>await response.json()\<close> gives: either of them
  throws (\<open>Threw\<close>), or there is a response with its \<open>ok\<close> flag and, read only when the
  flag is set, its body.
\<close>

datatype fetch_result = Threw | Responded bool "coin_quote obj"

definition catalog :: "string list" where
  "catalog = [''BTC'', ''ETH'', ''SOL'', ''DOGE'', ''ADA'', ''XRP'', ''MATIC'', ''AVAX'']"

definition coinIds :: "string obj" where
  "coinIds =
     [(''BTC'', ''bitcoin''), (''ETH'', ''ethereum''), (''SOL'', ''solana''),
      (''DOGE'', ''dogecoin''), (''ADA'', ''cardano''), (''XRP'', ''ripple''),
      (''MATIC'', ''matic-network''), (''AVAX'', ''avalanche-2'')]"

text \<open>\<open>coinIds[symbol]\<close>, used as a key of \<open>data\<close>: a missing symbol gives \<open>undefined\<close>,
  which as a key is the string \<open>undefined\<close>.\<close>

definition coinId :: "string \<Rightarrow> string" where
  "coinId symbol = (case map_of coinIds symbol of Some c \<Rightarrow> c | None \<Rightarrow> ''undefined'')"

text \<open>The test \<open>data[coinId] && data[coinId].usd\<close>: the entry, when it is there and its
  \<open>usd\<close> is a number other than zero.\<close>

definition quotedUsd :: "coin_quote obj \<Rightarrow> string \<Rightarrow> (real \<times> coin_quote) option" where
  "quotedUsd data cid =
     (case map_of data cid of
        None \<Rightarrow> None
      | Some cq \<Rightarrow>
          (case usd cq of
             None \<Rightarrow> None
           | Some u \<Rightarrow> if u = 0 then None else Some (u, cq)))"

text \<open>The body of \<open>cryptoSymbols.forEach\<close> for an answer that is ok, on the three local
  objects \<open>newPrices\<close>, \<open>newErrors\<close> and \<open>newTimestamps\<close>.\<close>

definition quoteStep ::
  "int \<Rightarrow> coin_quote obj \<Rightarrow> string \<Rightarrow>
   price_data obj \<times> string obj \<times> int obj \<Rightarrow> price_data obj \<times> string obj \<times> int obj"
where
  "quoteStep now data symbol acc =
     (case acc of (newPrices, newErrors, newTimestamps) \<Rightarrow>
        (case quotedUsd data (coinId symbol) of
           Some (u, cq) \<Rightarrow>
             (AList.update symbol
                \<lparr>price = u,
                 change = (case usd_24h_change cq of Some c \<Rightarrow> c | None \<Rightarrow> 0),
                 ptype = ''crypto'', tradeable = True, pd_lastUpdate = now\<rparr> newPrices,
              newErrors,
              AList.update symbol now newTimestamps)
         | None \<Rightarrow>
             (newPrices, AList.update symbol ''Data Unavailable'' newErrors, newTimestamps)))"

text \<open>The inner \<open>try\<close> block of \<open>fetchCryptoPrices\<close>: the three local objects at the point
  where the state setters are reached.\<close>

definition collectQuotes ::
  "string list \<Rightarrow> int \<Rightarrow> fetch_result \<Rightarrow> price_data obj \<times> string obj \<times> int obj"
where
  "collectQuotes symbols now response =
     (let cryptoSymbols = filter (\<lambda>s. s \<in> set catalog) symbols in
      if cryptoSymbols \<noteq> [] then
        (case response of
           Responded ok data \<Rightarrow>
             if ok then fold (quoteStep now data) cryptoSymbols ([], [], [])
             else ([], fold (\<lambda>s. AList.update s ''API Error'') cryptoSymbols [], [])
         | Threw \<Rightarrow> ([], fold (\<lambda>s. AList.update s ''Network Error'') cryptoSymbols [], []))
      else ([], [], []))"

record history_point =
  hp_time :: string
  hp_price :: real
  hp_timestamp :: int

record market =
  prices :: "price_data obj"
  chartData :: "history_point list obj"
  loading :: bool
  apiError :: "string obj"
  lastUpdate :: "int obj"

definition initialMarket :: market where
  "initialMarket =
     \<lparr>prices = [], chartData = [], loading = True, apiError = [], lastUpdate = []\<rparr>"

text \<open>One run of \<open>fetchCryptoPrices\<close> on the tracked \<open>symbols\<close>, at time \<open>now\<close>, with the
  outcome \<open>response\<close> of the request.\<close>

definition fetchCryptoPrices :: "string list \<Rightarrow> int \<Rightarrow> fetch_result \<Rightarrow> market \<Rightarrow> market" where
  "fetchCryptoPrices symbols now response m =
     (case collectQuotes symbols now response of (newPrices, newErrors, newTimestamps) \<Rightarrow>
        if newPrices \<noteq> [] then
          m\<lparr>prices := spread (prices m) newPrices,
            lastUpdate := spread (lastUpdate m) newTimestamps,
            apiError := spread (apiError m) newErrors,
            loading := False\<rparr>
        else m)"

record tick =
  t_symbols :: "string list"
  t_now :: int
  t_response :: fetch_result

definition doTick :: "tick \<Rightarrow> market \<Rightarrow> market" where
  "doTick t m = fetchCryptoPrices (t_symbols t) (t_now t) (t_response t) m"

fun runTicks :: "tick list \<Rightarrow> market \<Rightarrow> market" where
  "runTicks [] m = m"
| "runTicks (t # ts) m = runTicks ts (doTick t m)"

text \<open>The tick produced a successful quote for the symbol.\<close>

definition quotedBy :: "tick \<Rightarrow> string \<Rightarrow> bool" where
  "quotedBy t symbol =
     (map_of (fst (collectQuotes (t_symbols t) (t_now t) (t_response t))) symbol \<noteq> None)"

section \<open>The price history (the effect on prices)\<close>

text \<open>\<open>xs.slice(-n)\<close>: the last \<open>n\<close> elements, all of them when there are fewer.\<close>

definition slice_last :: "nat \<Rightarrow> 'a list \<Rightarrow> 'a list" where
  "slice_last n xs = drop (length xs - n) xs"

text \<open>The body of the \<open>forEach\<close> over \<open>Object.entries(prices)\<close>; \<open>fmt\<close> stands for the
  formatting of the time by \<open>toLocaleTimeString\<close>.\<close>

definition chartStep ::
  "(int \<Rightarrow> string) \<Rightarrow> int \<Rightarrow> string \<times> price_data \<Rightarrow>
   history_point list obj \<Rightarrow> history_point list obj"
where
  "chartStep fmt now entry prev =
     (case entry of (symbol, priceData) \<Rightarrow>
        if price priceData > 0 then
          (let existing = (case map_of prev symbol of Some e \<Rightarrow> e | None \<Rightarrow> []);
               newPoint = \<lparr>hp_time = fmt now, hp_price = price priceData, hp_timestamp = now\<rparr>
           in AList.update symbol (slice_last 100 (existing @ [newPoint])) prev)
        else prev)"

definition recordHistory ::
  "(int \<Rightarrow> string) \<Rightarrow> int \<Rightarrow> price_data obj \<Rightarrow> history_point list obj \<Rightarrow> history_point list obj"
where
  "recordHistory fmt now ps chart = (if ps = [] then chart else fold (chartStep fmt now) ps chart)"

text \<open>The effect run once for each of a sequence of values of \<open>prices\<close>.\<close>

fun runHistory ::
  "(int \<Rightarrow> string) \<Rightarrow> (int \<times> price_data obj) list \<Rightarrow> history_point list obj \<Rightarrow>
   history_point list obj"
where
  "runHistory fmt [] chart = chart"
| "runHistory fmt ((now, ps) # rest) chart = runHistory fmt rest (recordHistory fmt now ps chart)"

definition chartBounded :: "history_point list obj \<Rightarrow> bool" where
  "chartBounded chart = list_all (\<lambda>(k, pts). length pts \<le> 100) chart"

text \<open>What the loop over the symbols keeps true of its three local objects.\<close>

definition sorted_out :: "coin_quote obj \<Rightarrow> price_data obj \<times> string obj \<times> int obj \<Rightarrow> bool" where
  "sorted_out data acc =
     (list_all (\<lambda>(k, pd). tradeable pd) (fst acc) \<and>
      (\<forall>k. map_of (fst acc) k \<noteq> None \<longrightarrow> quotedUsd data (coinId k) \<noteq> None) \<and>
      (\<forall>k. map_of (fst (snd acc)) k \<noteq> None \<longrightarrow> quotedUsd data (coinId k) = None))"

text \<open>Every cached quote carries the flag \<open>tradeable\<close>.\<close>

definition allTradeable :: "market \<Rightarrow> bool" where
  "allTradeable m = list_all (\<lambda>(k, pd). tradeable pd) (prices m)"

text \<open>The point that \<open>chartStep\<close> appends for a quote, and the sequence (\<open>prev[symbol] || []\<close>) it
  appends to.\<close>

definition pointOf :: "(int \<Rightarrow> string) \<Rightarrow> int \<Rightarrow> price_data \<Rightarrow> history_point" where
  "pointOf fmt now priceData =
     \<lparr>hp_time = fmt now, hp_price = price priceData, hp_timestamp = now\<rparr>"

definition existingOf :: "history_point list obj \<Rightarrow> string \<Rightarrow> history_point list" where
  "existingOf chart symbol = (case map_of chart symbol of Some e \<Rightarrow> e | None \<Rightarrow> [])"

section \<open>Example portfolios and trades\<close>

definition scenario :: "call list" where
  "scenario =
     [\<lparr>c_prices = [(''BTC'', quote 30000)], c_symbol = ''BTC'', c_now = 1, c_type = Buy, c_amount = Some 1\<rparr>,
      \<lparr>c_prices = [(''BTC'', quote 50000)], c_symbol = ''BTC'', c_now = 2, c_type = Buy, c_amount = Some 1\<rparr>,
      \<lparr>c_prices = [(''BTC'', quote 60000)], c_symbol = ''BTC'', c_now = 3, c_type = Sell, c_amount = Some 2\<rparr>]"

definition gainScenario :: "call list" where
  "gainScenario =
     [\<lparr>c_prices = [(''BTC'', quote 10000)], c_symbol = ''BTC'', c_now = 1, c_type = Buy, c_amount = Some 2\<rparr>,
      \<lparr>c_prices = [(''BTC'', quote 30000)], c_symbol = ''BTC'', c_now = 2, c_type = Sell, c_amount = Some 1\<rparr>]"

definition twoHoldings :: store where
  "twoHoldings =
     \<lparr>balance = 70000,
      holdings = [(''BTC'', \<lparr>quantity = 2, avgCost = 10000\<rparr>),
                  (''ETH'', \<lparr>quantity = 5, avgCost = 2000\<rparr>)],
      transactions = []\<rparr>"

text \<open>A quote whose flag \<open>tradeable\<close> is not set.\<close>

definition halted :: price_data where
  "halted = \<lparr>price = 30000, change = 0, ptype = ''crypto'', tradeable = False, pd_lastUpdate = 0\<rparr>"

text \<open>Two answers of the quote source, and a history that is full.\<close>

definition tickBoth :: tick where
  "tickBoth =
     \<lparr>t_symbols = [''BTC'', ''ETH''], t_now = 10,
      t_response = Responded True
        [(''bitcoin'', \<lparr>usd = Some 50000, usd_24h_change = Some 2\<rparr>),
         (''ethereum'', \<lparr>usd = Some 3000, usd_24h_change = None\<rparr>)]\<rparr>"

definition tickEthOnly :: tick where
  "tickEthOnly =
     \<lparr>t_symbols = [''BTC'', ''ETH''], t_now = 20,
      t_response = Responded True
        [(''ethereum'', \<lparr>usd = Some 3100, usd_24h_change = Some 1\<rparr>)]\<rparr>"

definition pricesNow :: "price_data obj" where
  "pricesNow = [(''BTC'', quote 50000), (''XRP'', quote 0)]"

definition hundred :: "history_point list" where
  "hundred = map (\<lambda>i. \<lparr>hp_time = '''', hp_price = 1, hp_timestamp = int i\<rparr>) [0..<100]"

section \<open>Facts about executeTrade\<close>

lemma executeTrade_NaN: "executeTrade ps symb now ty None s = (Ignored, s)"
  by (simp add: executeTrade_def)

lemma executeTrade_nonpositive: "q \<le> 0 \<Longrightarrow> executeTrade ps symb now ty (Some q) s = (Ignored, s)"
  by (simp add: executeTrade_def)

lemma executeTrade_unpriced:
  "map_of ps symb = None \<Longrightarrow> executeTrade ps symb now ty (Some q) s = (Ignored, s)"
  by (simp add: executeTrade_def)

lemma executeTrade_zero_price:
  "map_of ps symb = Some pd \<Longrightarrow> price pd = 0 \<Longrightarrow>
   executeTrade ps symb now ty (Some q) s = (Ignored, s)"
  by (simp add: executeTrade_def)

lemma executeTrade_untradeable:
  "0 < q \<Longrightarrow> map_of ps symb = Some pd \<Longrightarrow> price pd \<noteq> 0 \<Longrightarrow> \<not> tradeable pd \<Longrightarrow>
   executeTrade ps symb now ty (Some q) s =
     (Alert ''Trading is currently unavailable for this symbol.'', s)"
  by (simp add: executeTrade_def canTrade_def)

lemma executeTrade_buy_short:
  "0 < q \<Longrightarrow> map_of ps symb = Some pd \<Longrightarrow> price pd \<noteq> 0 \<Longrightarrow> tradeable pd \<Longrightarrow>
   balance s < q * price pd \<Longrightarrow>
   executeTrade ps symb now Buy (Some q) s = (Alert ''Insufficient balance!'', s)"
  by (simp add: executeTrade_def canTrade_def Let_def)

lemma executeTrade_buy_ok:
  "0 < q \<Longrightarrow> map_of ps symb = Some pd \<Longrightarrow> price pd \<noteq> 0 \<Longrightarrow> tradeable pd \<Longrightarrow>
   q * price pd \<le> balance s \<Longrightarrow>
   executeTrade ps symb now Buy (Some q) s =
     (Traded,
      \<lparr>balance = balance s - q * price pd,
       holdings =
         AList.update symb
           \<lparr>quantity = (case map_of (holdings s) symb of None \<Rightarrow> 0 | Some h \<Rightarrow> quantity h) + q,
            avgCost = (case map_of (holdings s) symb of
                         Some h \<Rightarrow> ((avgCost h * quantity h) + q * price pd) / (quantity h + q)
                       | None \<Rightarrow> price pd)\<rparr>
           (holdings s),
       transactions =
         \<lparr>tx_id = now, tx_type = Buy, tx_symbol = symb, tx_quantity = q,
          tx_price = price pd, tx_total = q * price pd, tx_timestamp = now\<rparr> # transactions s\<rparr>)"
  by (simp add: executeTrade_def canTrade_def Let_def)

lemma executeTrade_sell_none:
  "0 < q \<Longrightarrow> map_of ps symb = Some pd \<Longrightarrow> price pd \<noteq> 0 \<Longrightarrow> tradeable pd \<Longrightarrow>
   map_of (holdings s) symb = None \<Longrightarrow>
   executeTrade ps symb now Sell (Some q) s = (Alert ''Insufficient holdings!'', s)"
  by (simp add: executeTrade_def canTrade_def Let_def)

lemma executeTrade_sell_short:
  "0 < q \<Longrightarrow> map_of ps symb = Some pd \<Longrightarrow> price pd \<noteq> 0 \<Longrightarrow> tradeable pd \<Longrightarrow>
   map_of (holdings s) symb = Some h \<Longrightarrow> quantity h < q \<Longrightarrow>
   executeTrade ps symb now Sell (Some q) s = (Alert ''Insufficient holdings!'', s)"
  by (simp add: executeTrade_def canTrade_def Let_def)

lemma executeTrade_sell_ok:
  "0 < q \<Longrightarrow> map_of ps symb = Some pd \<Longrightarrow> price pd \<noteq> 0 \<Longrightarrow> tradeable pd \<Longrightarrow>
   map_of (holdings s) symb = Some h \<Longrightarrow> q \<le> quantity h \<Longrightarrow>
   executeTrade ps symb now Sell (Some q) s =
     (Traded,
      \<lparr>balance = balance s + q * price pd,
       holdings =
         (if quantity h = q then AList.delete symb (holdings s)
          else AList.update symb (h\<lparr>quantity := quantity h - q\<rparr>) (holdings s)),
       transactions =
         \<lparr>tx_id = now, tx_type = Sell, tx_symbol = symb, tx_quantity = q,
          tx_price = price pd, tx_total = q * price pd, tx_timestamp = now\<rparr> # transactions s\<rparr>)"
  by (simp add: executeTrade_def canTrade_def Let_def)

lemma rejected_unchanged:
  assumes "fst (executeTrade ps symb now ty amt s) \<noteq> Traded"
  shows "snd (executeTrade ps symb now ty amt s) = s"
proof (cases amt)
  case None
  then show ?thesis by (simp add: executeTrade_NaN)
next
  case (Some q)
  show ?thesis
  proof (cases "q \<le> 0")
    case True
    with Some show ?thesis by (simp add: executeTrade_nonpositive)
  next
    case False
    then have q: "0 < q" by simp
    show ?thesis
    proof (cases "map_of ps symb")
      case None
      with Some show ?thesis by (simp add: executeTrade_unpriced)
    next
      case pd: (Some pd)
      show ?thesis
      proof (cases "price pd = 0")
        case True
        with Some pd show ?thesis by (simp add: executeTrade_zero_price)
      next
        case p0: False
        show ?thesis
        proof (cases "tradeable pd")
          case False
          with Some q pd p0 show ?thesis by (simp add: executeTrade_untradeable)
        next
          case tr: True
          show ?thesis
          proof (cases ty)
            case Buy
            show ?thesis
            proof (cases "balance s < q * price pd")
              case True
              with Some q pd p0 tr Buy show ?thesis by (simp add: executeTrade_buy_short)
            next
              case False
              then have "q * price pd \<le> balance s" by simp
              from executeTrade_buy_ok [OF q pd p0 tr this, of now] assms Some Buy
              show ?thesis by simp
            qed
          next
            case Sell
            show ?thesis
            proof (cases "map_of (holdings s) symb")
              case None
              with Some q pd p0 tr Sell show ?thesis by (simp add: executeTrade_sell_none)
            next
              case h: (Some h)
              show ?thesis
              proof (cases "quantity h < q")
                case True
                with Some q pd p0 tr Sell h show ?thesis by (simp add: executeTrade_sell_short)
              next
                case False
                then have "q \<le> quantity h" by simp
                from executeTrade_sell_ok [OF q pd p0 tr h this, of now] assms Some Sell
                show ?thesis by simp
              qed
            qed
          qed
        qed
      qed
    qed
  qed
qed

lemma traded_common:
  assumes "executeTrade ps symb now ty amt s = (Traded, s')"
  shows "\<exists>q pd. amt = Some q \<and> 0 < q \<and> map_of ps symb = Some pd \<and> price pd \<noteq> 0 \<and> tradeable pd"
proof -
  obtain q where amt: "amt = Some q"
    using assms by (cases amt) (simp_all add: executeTrade_NaN)
  have q: "0 < q"
    using assms amt by (cases "q \<le> 0") (simp_all add: executeTrade_nonpositive)
  obtain pd where pd: "map_of ps symb = Some pd"
    using assms amt by (cases "map_of ps symb") (simp_all add: executeTrade_unpriced)
  have p0: "price pd \<noteq> 0"
    using assms amt pd by (cases "price pd = 0") (simp_all add: executeTrade_zero_price)
  have "tradeable pd"
    using assms amt q pd p0 by (cases "tradeable pd") (simp_all add: executeTrade_untradeable)
  with amt q pd p0 show ?thesis by blast
qed

lemma buy_TradedD:
  assumes "executeTrade ps symb now Buy (Some q) s = (Traded, s')"
    and "map_of ps symb = Some pd"
  shows "0 < q \<and> price pd \<noteq> 0 \<and> tradeable pd \<and> q * price pd \<le> balance s \<and>
         s' = \<lparr>balance = balance s - q * price pd,
       holdings =
         AList.update symb
           \<lparr>quantity = (case map_of (holdings s) symb of None \<Rightarrow> 0 | Some h \<Rightarrow> quantity h) + q,
            avgCost = (case map_of (holdings s) symb of
                         Some h \<Rightarrow> ((avgCost h * quantity h) + q * price pd) / (quantity h + q)
                       | None \<Rightarrow> price pd)\<rparr>
           (holdings s),
       transactions =
         \<lparr>tx_id = now, tx_type = Buy, tx_symbol = symb, tx_quantity = q,
          tx_price = price pd, tx_total = q * price pd, tx_timestamp = now\<rparr> # transactions s\<rparr>"
proof -
  from traded_common [OF assms(1)] assms(2)
  have c: "0 < q" "price pd \<noteq> 0" "tradeable pd" by auto
  have le: "q * price pd \<le> balance s"
    using assms c by (cases "balance s < q * price pd") (simp_all add: executeTrade_buy_short)
  from executeTrade_buy_ok [OF c(1) assms(2) c(2) c(3) le, of now] assms(1) c le
  show ?thesis by simp
qed

lemma sell_TradedD:
  assumes "executeTrade ps symb now Sell (Some q) s = (Traded, s')"
    and "map_of ps symb = Some pd"
  shows "\<exists>h. 0 < q \<and> price pd \<noteq> 0 \<and> tradeable pd \<and> map_of (holdings s) symb = Some h \<and>
           q \<le> quantity h \<and>
         s' = \<lparr>balance = balance s + q * price pd,
       holdings =
         (if quantity h = q then AList.delete symb (holdings s)
          else AList.update symb (h\<lparr>quantity := quantity h - q\<rparr>) (holdings s)),
       transactions =
         \<lparr>tx_id = now, tx_type = Sell, tx_symbol = symb, tx_quantity = q,
          tx_price = price pd, tx_total = q * price pd, tx_timestamp = now\<rparr> # transactions s\<rparr>"
proof -
  from traded_common [OF assms(1)] assms(2)
  have c: "0 < q" "price pd \<noteq> 0" "tradeable pd" by auto
  obtain h where h: "map_of (holdings s) symb = Some h"
    using assms c by (cases "map_of (holdings s) symb") (simp_all add: executeTrade_sell_none)
  have le: "q \<le> quantity h"
    using assms c h by (cases "quantity h < q") (simp_all add: executeTrade_sell_short)
  from executeTrade_sell_ok [OF c(1) assms(2) c(2) c(3) h le, of now] assms(1) c h le
  show ?thesis by simp
qed

lemma list_all_update:
  "list_all (\<lambda>(k, v). P v) al \<Longrightarrow> P v \<Longrightarrow> list_all (\<lambda>(k, v). P v) (AList.update k v al)"
  by (induction al) auto

lemma list_all_delete:
  "list_all P al \<Longrightarrow> list_all P (AList.delete k al)"
  by (induction al) auto

lemma map_of_list_all:
  "list_all (\<lambda>(k, v). P v) al \<Longrightarrow> map_of al k = Some v \<Longrightarrow> P v"
  by (induction al) (auto split: if_splits)

lemma holdingsPositive_lookup:
  "holdingsPositive hs \<Longrightarrow> map_of hs k = Some h \<Longrightarrow> 0 < quantity h"
  unfolding holdingsPositive_def by (rule map_of_list_all [where P = "\<lambda>h. 0 < quantity h"])

lemma holdingsPositive_update:
  "holdingsPositive hs \<Longrightarrow> 0 < quantity h \<Longrightarrow> holdingsPositive (AList.update k h hs)"
  unfolding holdingsPositive_def by (rule list_all_update [where P = "\<lambda>h. 0 < quantity h"])

lemma holdingsPositive_delete:
  "holdingsPositive hs \<Longrightarrow> holdingsPositive (AList.delete k hs)"
  unfolding holdingsPositive_def by (rule list_all_delete)

lemma quotesPositive_lookup:
  "quotesPositive ps \<Longrightarrow> map_of ps k = Some pd \<Longrightarrow> 0 < price pd"
  unfolding quotesPositive_def by (rule map_of_list_all [where P = "\<lambda>pd. 0 < price pd"])

lemma doCall_rejected:
  "fst (doCall c s) \<noteq> Traded \<Longrightarrow> snd (doCall c s) = s"
  unfolding doCall_def by (rule rejected_unchanged)

lemma doCall_TradedE:
  assumes "fst (doCall c s) = Traded"
  obtains q pd where "c_amount c = Some q" "0 < q" "map_of (c_prices c) (c_symbol c) = Some pd"
    "price pd \<noteq> 0" "tradeable pd"
    "executeTrade (c_prices c) (c_symbol c) (c_now c) (c_type c) (Some q) s = (Traded, snd (doCall c s))"
proof -
  have e: "executeTrade (c_prices c) (c_symbol c) (c_now c) (c_type c) (c_amount c) s
             = (Traded, snd (doCall c s))"
    using assms by (simp add: doCall_def prod_eq_iff)
  from traded_common [OF e] obtain q pd where
    "c_amount c = Some q" "0 < q" "map_of (c_prices c) (c_symbol c) = Some pd"
    "price pd \<noteq> 0" "tradeable pd" by blast
  with e that show thesis by simp
qed

lemma ledgerInv_step:
  assumes "ledgerInv s"
  shows "ledgerInv (snd (doCall c s))"
proof (cases "fst (doCall c s) = Traded")
  case False
  with assms show ?thesis by (simp add: doCall_rejected)
next
  case True
  then obtain q pd where q: "0 < q" and pd: "map_of (c_prices c) (c_symbol c) = Some pd"
    and e: "executeTrade (c_prices c) (c_symbol c) (c_now c) (c_type c) (Some q) s
              = (Traded, snd (doCall c s))"
    by (rule doCall_TradedE)
  from assms have d: "distinct (map fst (holdings s))" and hp: "holdingsPositive (holdings s)"
    by (simp_all add: ledgerInv_def)
  show ?thesis
  proof (cases "c_type c")
    case Buy
    with e have e': "executeTrade (c_prices c) (c_symbol c) (c_now c) Buy (Some q) s
              = (Traded, snd (doCall c s))" by simp
    have "0 < (case map_of (holdings s) (c_symbol c) of None \<Rightarrow> 0 | Some h \<Rightarrow> quantity h) + q"
      using q hp by (auto split: option.splits dest: holdingsPositive_lookup)
    then show ?thesis
      using buy_TradedD [OF e' pd] d hp
      by (simp add: ledgerInv_def AList.distinct_update holdingsPositive_update)
  next
    case Sell
    with e have e': "executeTrade (c_prices c) (c_symbol c) (c_now c) Sell (Some q) s
              = (Traded, snd (doCall c s))" by simp
    from sell_TradedD [OF e' pd] obtain h where
      h: "map_of (holdings s) (c_symbol c) = Some h" "q \<le> quantity h"
      and hs: "holdings (snd (doCall c s)) =
         (if quantity h = q then AList.delete (c_symbol c) (holdings s)
          else AList.update (c_symbol c) (h\<lparr>quantity := quantity h - q\<rparr>) (holdings s))"
      by auto
    show ?thesis
      using h d hp
      by (simp add: ledgerInv_def hs AList.distinct_update AList.distinct_delete
            holdingsPositive_update holdingsPositive_delete)
  qed
qed

lemma ledgerInv_runTrades: "ledgerInv s \<Longrightarrow> ledgerInv (runTrades cs s)"
  by (induction cs arbitrary: s) (simp_all add: ledgerInv_step)

lemma cash_step:
  assumes "0 \<le> balance s" "quotesPositive (c_prices c)"
  shows "0 \<le> balance (snd (doCall c s))"
proof (cases "fst (doCall c s) = Traded")
  case False
  with assms show ?thesis by (simp add: doCall_rejected)
next
  case True
  then obtain q pd where q: "0 < q" and pd: "map_of (c_prices c) (c_symbol c) = Some pd"
    and e: "executeTrade (c_prices c) (c_symbol c) (c_now c) (c_type c) (Some q) s
              = (Traded, snd (doCall c s))"
    by (rule doCall_TradedE)
  have p: "0 < price pd" using assms(2) pd by (rule quotesPositive_lookup)
  show ?thesis
  proof (cases "c_type c")
    case Buy
    with e have e': "executeTrade (c_prices c) (c_symbol c) (c_now c) Buy (Some q) s
              = (Traded, snd (doCall c s))" by simp
    from buy_TradedD [OF e' pd]
    have "q * price pd \<le> balance s" "balance (snd (doCall c s)) = balance s - q * price pd"
      by auto
    then show ?thesis by simp
  next
    case Sell
    with e have e': "executeTrade (c_prices c) (c_symbol c) (c_now c) Sell (Some q) s
              = (Traded, snd (doCall c s))" by simp
    from sell_TradedD [OF e' pd]
    have "balance (snd (doCall c s)) = balance s + q * price pd" by auto
    moreover have "0 \<le> q * price pd" using q p by simp
    ultimately show ?thesis using assms(1) by simp
  qed
qed

lemma cash_runTrades:
  "0 \<le> balance s \<Longrightarrow> \<forall>c\<in>set cs. quotesPositive (c_prices c) \<Longrightarrow> 0 \<le> balance (runTrades cs s)"
  by (induction cs arbitrary: s) (simp_all add: cash_step)

lemma ledgerInv_initial: "ledgerInv initialStore"
  by (simp add: ledgerInv_def initialStore_def holdingsPositive_def)

lemma sum_list_update_new:
  "map_of al k = None \<Longrightarrow>
   sum_list (map f (AList.update k v al)) = sum_list (map f al) + (f (k, v) :: real)"
  by (induction al) (auto split: if_splits)

lemma sum_list_update_old:
  "distinct (map fst al) \<Longrightarrow> map_of al k = Some w \<Longrightarrow>
   sum_list (map f (AList.update k v al)) = sum_list (map f al) - f (k, w) + (f (k, v) :: real)"
proof (induction al)
  case Nil
  then show ?case by simp
next
  case (Cons a al)
  show ?case
  proof (cases "fst a = k")
    case True
    with Cons.prems have "a = (k, w)" by (cases a) simp
    then show ?thesis by simp
  next
    case False
    with Cons show ?thesis by (cases a) simp
  qed
qed

lemma delete_absent: "map_of al k = None \<Longrightarrow> AList.delete k al = al"
  by (induction al) (auto split: if_splits)

lemma sum_list_delete_old:
  "distinct (map fst al) \<Longrightarrow> map_of al k = Some w \<Longrightarrow>
   sum_list (map f (AList.delete k al)) = sum_list (map f al) - (f (k, w) :: real)"
proof (induction al)
  case Nil
  then show ?case by simp
next
  case (Cons a al)
  show ?case
  proof (cases "fst a = k")
    case True
    with Cons.prems have a: "a = (k, w)" by (cases a) simp
    from True Cons.prems have "map_of al k = None"
      by (cases a) (auto simp: map_of_eq_None_iff)
    then have "AList.delete k al = al" by (rule delete_absent)
    with a show ?thesis by simp
  next
    case False
    with Cons show ?thesis by (cases a) simp
  qed
qed

lemma bookValue_step:
  assumes "ledgerInv s"
  shows "bookValue (snd (doCall c s)) = bookValue s + realisedGain c s"
proof (cases "fst (doCall c s) = Traded")
  case False
  then show ?thesis by (simp add: doCall_rejected realisedGain_def split: outcome.splits)
next
  case True
  then obtain q pd where amt: "c_amount c = Some q" and q: "0 < q"
    and pd: "map_of (c_prices c) (c_symbol c) = Some pd"
    and e: "executeTrade (c_prices c) (c_symbol c) (c_now c) (c_type c) (Some q) s
              = (Traded, snd (doCall c s))"
    by (rule doCall_TradedE)
  from assms have d: "distinct (map fst (holdings s))" and hp: "holdingsPositive (holdings s)"
    by (simp_all add: ledgerInv_def)
  let ?f = "\<lambda>(k, h). quantity h * avgCost h"
  show ?thesis
  proof (cases "c_type c")
    case Buy
    with e have e': "executeTrade (c_prices c) (c_symbol c) (c_now c) Buy (Some q) s
              = (Traded, snd (doCall c s))" by simp
    have g: "realisedGain c s = 0" using True Buy by (simp add: realisedGain_def)
    note D = buy_TradedD [OF e' pd]
    show ?thesis
    proof (cases "map_of (holdings s) (c_symbol c)")
      case None
      with D have b: "balance (snd (doCall c s)) = balance s - q * price pd"
        and hs: "holdings (snd (doCall c s)) =
                  AList.update (c_symbol c) \<lparr>quantity = q, avgCost = price pd\<rparr> (holdings s)"
        by simp_all
      show ?thesis
        unfolding bookValue_def g b hs
        by (simp add: sum_list_update_new [OF None])
    next
      case (Some h)
      with D have b: "balance (snd (doCall c s)) = balance s - q * price pd"
        and hs: "holdings (snd (doCall c s)) =
                  AList.update (c_symbol c)
                    \<lparr>quantity = quantity h + q,
                     avgCost = ((avgCost h * quantity h) + q * price pd) / (quantity h + q)\<rparr>
                    (holdings s)"
        by simp_all
      have "0 < quantity h" using hp Some by (rule holdingsPositive_lookup)
      with q have nz: "quantity h + q \<noteq> 0" by simp
      show ?thesis
        unfolding bookValue_def g b hs
        using nz by (simp add: sum_list_update_old [OF d Some] mult.commute)
    qed
  next
    case Sell
    with e have e': "executeTrade (c_prices c) (c_symbol c) (c_now c) Sell (Some q) s
              = (Traded, snd (doCall c s))" by simp
    from sell_TradedD [OF e' pd] obtain h where
      h: "map_of (holdings s) (c_symbol c) = Some h"
      and b: "balance (snd (doCall c s)) = balance s + q * price pd"
      and hs: "holdings (snd (doCall c s)) =
         (if quantity h = q then AList.delete (c_symbol c) (holdings s)
          else AList.update (c_symbol c) (h\<lparr>quantity := quantity h - q\<rparr>) (holdings s))"
      by auto
    have g: "realisedGain c s = q * (price pd - avgCost h)"
      using True Sell amt pd h by (simp add: realisedGain_def)
    show ?thesis
      unfolding bookValue_def g b hs
      by (simp add: sum_list_update_old [OF d h] sum_list_delete_old [OF d h] algebra_simps)
  qed
qed

lemma bookValue_runTrades:
  "ledgerInv s \<Longrightarrow> bookValue (runTrades cs s) = bookValue s + totalRealised cs s"
  by (induction cs arbitrary: s) (simp_all add: bookValue_step ledgerInv_step)

section \<open>The ledger claims\<close>

lemmas ledger_eval =
  doCall_def executeTrade_def canTrade_def quote_def initialStore_def Let_def

lemma scenario_result:
  "runTrades scenario initialStore =
     \<lparr>balance = 140000, holdings = [],
      transactions =
        [\<lparr>tx_id = 3, tx_type = Sell, tx_symbol = ''BTC'', tx_quantity = 2, tx_price = 60000,
          tx_total = 120000, tx_timestamp = 3\<rparr>,
         \<lparr>tx_id = 2, tx_type = Buy, tx_symbol = ''BTC'', tx_quantity = 1, tx_price = 50000,
          tx_total = 50000, tx_timestamp = 2\<rparr>,
         \<lparr>tx_id = 1, tx_type = Buy, tx_symbol = ''BTC'', tx_quantity = 1, tx_price = 30000,
          tx_total = 30000, tx_timestamp = 1\<rparr>]\<rparr>"
  by (simp add: scenario_def ledger_eval)

lemma gainScenario_result:
  "runTrades gainScenario initialStore =
     \<lparr>balance = 110000, holdings = [(''BTC'', \<lparr>quantity = 1, avgCost = 10000\<rparr>)],
      transactions =
        [\<lparr>tx_id = 2, tx_type = Sell, tx_symbol = ''BTC'', tx_quantity = 1, tx_price = 30000,
          tx_total = 30000, tx_timestamp = 2\<rparr>,
         \<lparr>tx_id = 1, tx_type = Buy, tx_symbol = ''BTC'', tx_quantity = 2, tx_price = 10000,
          tx_total = 20000, tx_timestamp = 1\<rparr>]\<rparr>"
  by (simp add: gainScenario_def ledger_eval)

lemma bookValue_initial: "bookValue initialStore = 100000"
  by (simp add: bookValue_def initialStore_def)

text \<open>
  C1. After any sequence of \<open>executeTrade\<close> calls from the initial portfolio, every holding in
  the holdings object has a quantity above zero, so a holding whose quantity reaches zero is
  gone from the object in the same step; and when every quote on offer has a positive price,
  the cash balance is never negative.
\<close>
theorem cash_and_quantities_stay_valid:
  "holdingsPositive (holdings (runTrades cs initialStore)) \<and>
   ((\<forall>c\<in>set cs. quotesPositive (c_prices c)) \<longrightarrow> 0 \<le> balance (runTrades cs initialStore))"
proof -
  have "ledgerInv (runTrades cs initialStore)"
    using ledgerInv_initial by (rule ledgerInv_runTrades)
  moreover have "0 \<le> balance initialStore" by (simp add: initialStore_def)
  ultimately show ?thesis by (simp add: ledgerInv_def cash_runTrades)
qed

text \<open>C1 at two buys followed by the sale of the whole position.\<close>
theorem cash_and_quantities_stay_valid_witness:
  "list_all (\<lambda>c. quotesPositive (c_prices c)) scenario \<and>
   holdingsPositive (holdings (runTrades scenario initialStore)) \<and>
   0 \<le> balance (runTrades scenario initialStore) \<and>
   balance (runTrades scenario initialStore) = 140000"
proof -
  have q: "\<forall>c\<in>set scenario. quotesPositive (c_prices c)"
    by (simp add: scenario_def quotesPositive_def quote_def)
  with cash_and_quantities_stay_valid [of scenario] show ?thesis
    by (simp add: scenario_result list_all_iff)
qed

text \<open>
  C5 as stated fails: after buying 2 at 10000 and selling 1 at 30000, cash plus the cost basis
  of the holdings is 120000, which is neither the 100000 put in at signup nor the net amount
  the transaction log shows as bought.
\<close>
theorem book_value_not_conserved_counterexample:
  "bookValue (runTrades gainScenario initialStore) = 120000 \<and>
   bookValue (runTrades gainScenario initialStore) \<noteq> bookValue initialStore \<and>
   bookValue (runTrades gainScenario initialStore)
     \<noteq> netBought (transactions (runTrades gainScenario initialStore))"
  by (simp add: gainScenario_result bookValue_initial) (simp add: bookValue_def netBought_def)

text \<open>
  C5, amended. After any sequence of calls from the initial portfolio, cash plus the sum over
  the holdings of quantity times average cost equals 100000 plus the gains realised by the
  sells so far (quantity sold times sale price minus average cost); a buy and a rejected call
  leave the sum as it is.
\<close>
theorem book_value_tracks_realised_gain:
  "bookValue (runTrades cs initialStore) = 100000 + totalRealised cs initialStore"
proof -
  from bookValue_runTrades [OF ledgerInv_initial, of cs] show ?thesis
    by (simp add: bookValue_initial)
qed

text \<open>C5, amended, at the trades of the counterexample.\<close>
theorem book_value_tracks_realised_gain_witness:
  "bookValue (runTrades gainScenario initialStore) = 100000 + 20000 \<and>
   totalRealised gainScenario initialStore = 20000"
  using book_value_tracks_realised_gain [of gainScenario]
  by (simp add: gainScenario_result bookValue_def)

text \<open>
  C2. A buy of \<open>q\<close> at price \<open>p\<close> that is carried out sets the average cost to \<open>p\<close> when the
  symbol had no holding, and to \<open>((a * q1) + q * p) / (q1 + q)\<close> when it had one of quantity
  \<open>q1\<close> and average cost \<open>a\<close>; two buys from an empty position give
  \<open>(q1 * p1 + q2 * p2) / (q1 + q2)\<close>.
\<close>
theorem buy_sets_weighted_average_cost:
  assumes "executeTrade ps symb now Buy (Some q) s = (Traded, s')"
    and "map_of ps symb = Some pd"
  shows "(map_of (holdings s) symb = None \<longrightarrow>
            map_of (holdings s') symb = Some \<lparr>quantity = q, avgCost = price pd\<rparr>) \<and>
         (\<forall>h. map_of (holdings s) symb = Some h \<longrightarrow>
            map_of (holdings s') symb =
              Some \<lparr>quantity = quantity h + q,
                    avgCost = ((avgCost h * quantity h) + q * price pd) / (quantity h + q)\<rparr>) \<and>
         (\<forall>ps2 now2 q2 pd2 s''.
            map_of (holdings s) symb = None \<longrightarrow>
            executeTrade ps2 symb now2 Buy (Some q2) s' = (Traded, s'') \<longrightarrow>
            map_of ps2 symb = Some pd2 \<longrightarrow>
            map_of (holdings s'') symb =
              Some \<lparr>quantity = q + q2,
                    avgCost = (q * price pd + q2 * price pd2) / (q + q2)\<rparr>)"
proof -
  note D = buy_TradedD [OF assms]
  have first: "map_of (holdings s') symb = Some \<lparr>quantity = q, avgCost = price pd\<rparr>"
    if "map_of (holdings s) symb = None"
    using D that by (simp add: AList.update_conv')
  have blend: "map_of (holdings s') symb =
              Some \<lparr>quantity = quantity h + q,
                    avgCost = ((avgCost h * quantity h) + q * price pd) / (quantity h + q)\<rparr>"
    if "map_of (holdings s) symb = Some h" for h
    using D that by (simp add: AList.update_conv')
  have law: "map_of (holdings s'') symb =
              Some \<lparr>quantity = q + q2, avgCost = (q * price pd + q2 * price pd2) / (q + q2)\<rparr>"
    if n: "map_of (holdings s) symb = None"
      and e2: "executeTrade ps2 symb now2 Buy (Some q2) s' = (Traded, s'')"
      and pd2: "map_of ps2 symb = Some pd2" for ps2 now2 q2 pd2 s''
  proof -
    from first [OF n] buy_TradedD [OF e2 pd2]
    show ?thesis by (simp add: AList.update_conv' mult.commute)
  qed
  from first blend law show ?thesis by blast
qed

text \<open>C2 at a buy of 1 at 30000 followed by a buy of 1 at 50000.\<close>
theorem buy_sets_weighted_average_cost_witness:
  "map_of (holdings (runTrades (take 1 scenario) initialStore)) ''BTC''
     = Some \<lparr>quantity = 1, avgCost = 30000\<rparr> \<and>
   map_of (holdings (runTrades (take 2 scenario) initialStore)) ''BTC''
     = Some \<lparr>quantity = 1 + 1, avgCost = (1 * 30000 + 1 * 50000) / (1 + 1)\<rparr>"
proof -
  let ?s1 = "runTrades (take 1 scenario) initialStore"
  let ?s2 = "runTrades (take 2 scenario) initialStore"
  have e1: "executeTrade [(''BTC'', quote 30000)] ''BTC'' 1 Buy (Some 1) initialStore = (Traded, ?s1)"
    by (simp add: scenario_def ledger_eval)
  have e2: "executeTrade [(''BTC'', quote 50000)] ''BTC'' 2 Buy (Some 1) ?s1 = (Traded, ?s2)"
    by (simp add: scenario_def ledger_eval)
  have p1: "map_of [(''BTC'', quote 30000)] ''BTC'' = Some (quote 30000)" by simp
  have p2: "map_of [(''BTC'', quote 50000)] ''BTC'' = Some (quote 50000)" by simp
  have n: "map_of (holdings initialStore) ''BTC'' = None" by (simp add: initialStore_def)
  from buy_sets_weighted_average_cost [OF e1 p1] n e2 p2
  have "map_of (holdings ?s1) ''BTC'' = Some \<lparr>quantity = 1, avgCost = price (quote 30000)\<rparr>"
    and "map_of (holdings ?s2) ''BTC'' =
           Some \<lparr>quantity = 1 + 1,
                 avgCost = (1 * price (quote 30000) + 1 * price (quote 50000)) / (1 + 1)\<rparr>"
    by blast+
  then show ?thesis by (simp add: quote_def)
qed

text \<open>
  C3. For a positive quantity of a priced, tradeable symbol: a sell of more than is held, or of
  a symbol not held, shows the alert for insufficient holdings, a buy whose cost exceeds the
  cash shows the alert for insufficient balance, and in both cases the store (cash, holdings
  and transaction log) is the one before the call.
\<close>
theorem rejected_trade_keeps_state:
  assumes "0 < q" and "map_of ps symb = Some pd" and "price pd \<noteq> 0" and "tradeable pd"
  shows "((map_of (holdings s) symb = None \<or>
           (\<exists>h. map_of (holdings s) symb = Some h \<and> quantity h < q)) \<longrightarrow>
            executeTrade ps symb now Sell (Some q) s = (Alert ''Insufficient holdings!'', s)) \<and>
         (q * price pd > balance s \<longrightarrow>
            executeTrade ps symb now Buy (Some q) s = (Alert ''Insufficient balance!'', s))"
  using assms
  by (auto simp: executeTrade_sell_none executeTrade_sell_short executeTrade_buy_short)

text \<open>C3 at a sell and a buy of 3 BTC at 30000 with 2 BTC and 70000 in cash.\<close>
theorem rejected_trade_keeps_state_witness:
  "executeTrade [(''BTC'', quote 30000)] ''BTC'' 7 Sell (Some 3) twoHoldings
     = (Alert ''Insufficient holdings!'', twoHoldings) \<and>
   executeTrade [(''BTC'', quote 30000)] ''BTC'' 7 Buy (Some 3) twoHoldings
     = (Alert ''Insufficient balance!'', twoHoldings)"
proof -
  have a: "(0::real) < 3" "map_of [(''BTC'', quote 30000)] ''BTC'' = Some (quote 30000)"
    "price (quote 30000) \<noteq> 0" "tradeable (quote 30000)"
    by (simp_all add: quote_def)
  have "\<exists>h. map_of (holdings twoHoldings) ''BTC'' = Some h \<and> quantity h < 3"
    by (simp add: twoHoldings_def)
  moreover have "3 * price (quote 30000) > balance twoHoldings"
    by (simp add: twoHoldings_def quote_def)
  ultimately show ?thesis
    using rejected_trade_keeps_state [OF a, of twoHoldings 7] by simp
qed

text \<open>
  C4. A sell of \<open>q\<close> at price \<open>p\<close> that is carried out adds \<open>q * p\<close> to the cash; when nothing
  remains the symbol is removed from the holdings object, otherwise the holding keeps its
  average cost and its quantity goes down by \<open>q\<close>; the holdings of every other symbol are
  as before.
\<close>
theorem sell_changes_only_cash_and_quantity:
  assumes "executeTrade ps symb now Sell (Some q) s = (Traded, s')"
    and "map_of ps symb = Some pd"
  shows "balance s' = balance s + q * price pd \<and>
         (\<exists>h. map_of (holdings s) symb = Some h \<and>
            (quantity h - q = 0 \<longrightarrow>
               map_of (holdings s') symb = None \<and> symb \<notin> fst ` set (holdings s')) \<and>
            (quantity h - q \<noteq> 0 \<longrightarrow>
               map_of (holdings s') symb
                 = Some \<lparr>quantity = quantity h - q, avgCost = avgCost h\<rparr>)) \<and>
         (\<forall>k. k \<noteq> symb \<longrightarrow> map_of (holdings s') k = map_of (holdings s) k)"
proof -
  from sell_TradedD [OF assms] obtain h where
    h: "map_of (holdings s) symb = Some h"
    and b: "balance s' = balance s + q * price pd"
    and hs: "holdings s' =
         (if quantity h = q then AList.delete symb (holdings s)
          else AList.update symb (h\<lparr>quantity := quantity h - q\<rparr>) (holdings s))"
    by auto
  have z: "map_of (holdings s') symb = None \<and> symb \<notin> fst ` set (holdings s')"
    if "quantity h - q = 0"
    using that hs by (simp add: AList.delete_conv' AList.delete_notin_dom)
  have nz: "map_of (holdings s') symb = Some \<lparr>quantity = quantity h - q, avgCost = avgCost h\<rparr>"
    if "quantity h - q \<noteq> 0"
    using that hs by (simp add: AList.update_conv')
  have fr: "map_of (holdings s') k = map_of (holdings s) k" if "k \<noteq> symb" for k
    using that hs by (simp add: AList.update_conv' AList.delete_conv')
  from b h z nz fr show ?thesis by blast
qed

text \<open>C4 at the sale of all and of half of a position of 2 BTC.\<close>
theorem sell_changes_only_cash_and_quantity_witness:
  "(\<exists>s'. executeTrade [(''BTC'', quote 30000)] ''BTC'' 7 Sell (Some 2) twoHoldings = (Traded, s') \<and>
      balance s' = 70000 + 2 * 30000 \<and> map_of (holdings s') ''BTC'' = None \<and>
      map_of (holdings s') ''ETH'' = Some \<lparr>quantity = 5, avgCost = 2000\<rparr>) \<and>
   (\<exists>s'. executeTrade [(''BTC'', quote 30000)] ''BTC'' 7 Sell (Some 1) twoHoldings = (Traded, s') \<and>
      balance s' = 70000 + 1 * 30000 \<and>
      map_of (holdings s') ''BTC'' = Some \<lparr>quantity = 2 - 1, avgCost = 10000\<rparr> \<and>
      map_of (holdings s') ''ETH'' = Some \<lparr>quantity = 5, avgCost = 2000\<rparr>)"
proof -
  have p: "map_of [(''BTC'', quote 30000)] ''BTC'' = Some (quote 30000)" by simp
  have e2: "executeTrade [(''BTC'', quote 30000)] ''BTC'' 7 Sell (Some 2) twoHoldings
              = (Traded, snd (executeTrade [(''BTC'', quote 30000)] ''BTC'' 7 Sell (Some 2) twoHoldings))"
    by (simp add: twoHoldings_def executeTrade_def canTrade_def quote_def Let_def)
  have e1: "executeTrade [(''BTC'', quote 30000)] ''BTC'' 7 Sell (Some 1) twoHoldings
              = (Traded, snd (executeTrade [(''BTC'', quote 30000)] ''BTC'' 7 Sell (Some 1) twoHoldings))"
    by (simp add: twoHoldings_def executeTrade_def canTrade_def quote_def Let_def)
  have h: "map_of (holdings twoHoldings) ''BTC'' = Some \<lparr>quantity = 2, avgCost = 10000\<rparr>"
    "map_of (holdings twoHoldings) ''ETH'' = Some \<lparr>quantity = 5, avgCost = 2000\<rparr>"
    "balance twoHoldings = 70000"
    by (simp_all add: twoHoldings_def)
  have ne: "''ETH'' \<noteq> ''BTC''" by simp
  from sell_changes_only_cash_and_quantity [OF e2 p] h ne
  have all: "balance (snd (executeTrade [(''BTC'', quote 30000)] ''BTC'' 7 Sell (Some 2) twoHoldings))
               = 70000 + 2 * 30000 \<and>
             map_of (holdings (snd (executeTrade [(''BTC'', quote 30000)] ''BTC'' 7 Sell (Some 2) twoHoldings))) ''BTC'' = None \<and>
             map_of (holdings (snd (executeTrade [(''BTC'', quote 30000)] ''BTC'' 7 Sell (Some 2) twoHoldings))) ''ETH''
               = Some \<lparr>quantity = 5, avgCost = 2000\<rparr>"
    by (simp add: quote_def)
  from sell_changes_only_cash_and_quantity [OF e1 p] h ne
  have part: "balance (snd (executeTrade [(''BTC'', quote 30000)] ''BTC'' 7 Sell (Some 1) twoHoldings))
               = 70000 + 1 * 30000 \<and>
             map_of (holdings (snd (executeTrade [(''BTC'', quote 30000)] ''BTC'' 7 Sell (Some 1) twoHoldings))) ''BTC''
               = Some \<lparr>quantity = 2 - 1, avgCost = 10000\<rparr> \<and>
             map_of (holdings (snd (executeTrade [(''BTC'', quote 30000)] ''BTC'' 7 Sell (Some 1) twoHoldings))) ''ETH''
               = Some \<lparr>quantity = 5, avgCost = 2000\<rparr>"
    by (simp add: quote_def)
  from e2 all e1 part show ?thesis by blast
qed

text \<open>
  C10 as stated fails: a quantity of zero, a quantity that does not parse and a symbol
  without a price each make \<open>executeTrade\<close> return without any message.
\<close>
theorem silent_rejection_counterexample:
  "executeTrade [(''BTC'', quote 30000)] ''BTC'' 7 Buy (Some 0) initialStore = (Ignored, initialStore) \<and>
   executeTrade [(''BTC'', quote 30000)] ''BTC'' 7 Sell None initialStore = (Ignored, initialStore) \<and>
   executeTrade [(''BTC'', quote 30000)] ''DOT'' 7 Buy (Some 1) initialStore = (Ignored, initialStore)"
  by (simp add: executeTrade_def)

text \<open>
  C10, amended. A call whose quantity is not a positive number, or whose symbol has no
  nonzero price, returns without a message and leaves the store unchanged. A call with a
  positive quantity for a symbol with a nonzero price is rejected with an alert and an
  unchanged store in exactly three cases: the symbol is not tradeable (trading unavailable),
  a buy costs more than the cash (insufficient balance), a sell is of a symbol not held or of
  more than is held (insufficient holdings); in every other case the trade is carried out.
\<close>
theorem rejection_alerts_after_silent_guards:
  "((amt = None \<or> (\<exists>q. amt = Some q \<and> q \<le> 0) \<or> map_of ps symb = None \<or>
     (\<exists>pd. map_of ps symb = Some pd \<and> price pd = 0)) \<longrightarrow>
      executeTrade ps symb now ty amt s = (Ignored, s)) \<and>
   (\<forall>q pd. amt = Some q \<and> 0 < q \<and> map_of ps symb = Some pd \<and> price pd \<noteq> 0 \<longrightarrow>
      (\<not> tradeable pd \<longrightarrow>
         executeTrade ps symb now ty amt s
           = (Alert ''Trading is currently unavailable for this symbol.'', s)) \<and>
      (tradeable pd \<and> ty = Buy \<and> balance s < q * price pd \<longrightarrow>
         executeTrade ps symb now ty amt s = (Alert ''Insufficient balance!'', s)) \<and>
      (tradeable pd \<and> ty = Sell \<and>
         (map_of (holdings s) symb = None \<or>
          (\<exists>h. map_of (holdings s) symb = Some h \<and> quantity h < q)) \<longrightarrow>
         executeTrade ps symb now ty amt s = (Alert ''Insufficient holdings!'', s)) \<and>
      (tradeable pd \<and> ty = Buy \<and> q * price pd \<le> balance s \<longrightarrow>
         fst (executeTrade ps symb now ty amt s) = Traded) \<and>
      (tradeable pd \<and> ty = Sell \<and>
         (\<exists>h. map_of (holdings s) symb = Some h \<and> q \<le> quantity h) \<longrightarrow>
         fst (executeTrade ps symb now ty amt s) = Traded))"
proof -
  have silent: "executeTrade ps symb now ty amt s = (Ignored, s)"
    if "amt = None \<or> (\<exists>q. amt = Some q \<and> q \<le> 0) \<or> map_of ps symb = None \<or>
        (\<exists>pd. map_of ps symb = Some pd \<and> price pd = 0)"
    using that
    by (cases amt)
       (auto simp: executeTrade_NaN executeTrade_unpriced executeTrade_nonpositive
          executeTrade_zero_price)
  have loud:
    "(\<not> tradeable pd \<longrightarrow>
         executeTrade ps symb now ty amt s
           = (Alert ''Trading is currently unavailable for this symbol.'', s)) \<and>
      (tradeable pd \<and> ty = Buy \<and> balance s < q * price pd \<longrightarrow>
         executeTrade ps symb now ty amt s = (Alert ''Insufficient balance!'', s)) \<and>
      (tradeable pd \<and> ty = Sell \<and>
         (map_of (holdings s) symb = None \<or>
          (\<exists>h. map_of (holdings s) symb = Some h \<and> quantity h < q)) \<longrightarrow>
         executeTrade ps symb now ty amt s = (Alert ''Insufficient holdings!'', s)) \<and>
      (tradeable pd \<and> ty = Buy \<and> q * price pd \<le> balance s \<longrightarrow>
         fst (executeTrade ps symb now ty amt s) = Traded) \<and>
      (tradeable pd \<and> ty = Sell \<and>
         (\<exists>h. map_of (holdings s) symb = Some h \<and> q \<le> quantity h) \<longrightarrow>
         fst (executeTrade ps symb now ty amt s) = Traded)"
    if h: "amt = Some q \<and> 0 < q \<and> map_of ps symb = Some pd \<and> price pd \<noteq> 0" for q pd
  proof -
    from h have amt: "amt = Some q" and q: "0 < q" and pd: "map_of ps symb = Some pd"
      and p0: "price pd \<noteq> 0" by simp_all
    have a: "executeTrade ps symb now ty amt s
               = (Alert ''Trading is currently unavailable for this symbol.'', s)"
      if "\<not> tradeable pd"
      using q pd p0 that by (simp add: amt executeTrade_untradeable)
    have b: "executeTrade ps symb now ty amt s = (Alert ''Insufficient balance!'', s)"
      if "tradeable pd \<and> ty = Buy \<and> balance s < q * price pd"
      using q pd p0 that by (simp add: amt executeTrade_buy_short)
    have c: "executeTrade ps symb now ty amt s = (Alert ''Insufficient holdings!'', s)"
      if "tradeable pd \<and> ty = Sell \<and>
         (map_of (holdings s) symb = None \<or>
          (\<exists>h. map_of (holdings s) symb = Some h \<and> quantity h < q))"
      using q pd p0 that
      by (auto simp: amt executeTrade_sell_none executeTrade_sell_short)
    have d: "fst (executeTrade ps symb now ty amt s) = Traded"
      if "tradeable pd \<and> ty = Buy \<and> q * price pd \<le> balance s"
      using q pd p0 that by (simp add: amt executeTrade_buy_ok)
    have e: "fst (executeTrade ps symb now ty amt s) = Traded"
      if "tradeable pd \<and> ty = Sell \<and> (\<exists>h. map_of (holdings s) symb = Some h \<and> q \<le> quantity h)"
      using q pd p0 that by (auto simp: amt executeTrade_sell_ok)
    from a b c d e show ?thesis by blast
  qed
  from silent loud show ?thesis by blast
qed

text \<open>C10, amended, at a quote that is not tradeable, a buy beyond the cash, a sell beyond
  the holding, an unpriced symbol, a quantity of zero, and a buy and a sell within the means.\<close>
theorem rejection_alerts_after_silent_guards_witness:
  "executeTrade [(''BTC'', halted)] ''BTC'' 7 Buy (Some 1) twoHoldings
     = (Alert ''Trading is currently unavailable for this symbol.'', twoHoldings) \<and>
   executeTrade [(''BTC'', quote 30000)] ''BTC'' 7 Buy (Some 3) twoHoldings
     = (Alert ''Insufficient balance!'', twoHoldings) \<and>
   executeTrade [(''BTC'', quote 30000)] ''BTC'' 7 Sell (Some 3) twoHoldings
     = (Alert ''Insufficient holdings!'', twoHoldings) \<and>
   executeTrade [(''BTC'', quote 30000)] ''SOL'' 7 Sell (Some 3) twoHoldings
     = (Ignored, twoHoldings) \<and>
   executeTrade [(''BTC'', quote 30000)] ''BTC'' 7 Sell (Some 0) twoHoldings
     = (Ignored, twoHoldings) \<and>
   fst (executeTrade [(''BTC'', quote 30000)] ''BTC'' 7 Buy (Some 2) twoHoldings) = Traded \<and>
   fst (executeTrade [(''BTC'', quote 30000)] ''BTC'' 7 Sell (Some 2) twoHoldings) = Traded"
proof -
  have pq: "map_of [(''BTC'', quote 30000)] ''BTC'' = Some (quote 30000)"
    "price (quote 30000) \<noteq> 0" "tradeable (quote 30000)" "price (quote 30000) = 30000"
    by (simp_all add: quote_def)
  have ph: "map_of [(''BTC'', halted)] ''BTC'' = Some halted" "price halted \<noteq> 0"
    "\<not> tradeable halted"
    by (simp_all add: halted_def)
  have st: "balance twoHoldings = 70000"
    "map_of (holdings twoHoldings) ''BTC'' = Some \<lparr>quantity = 2, avgCost = 10000\<rparr>"
    by (simp_all add: twoHoldings_def)
  have un: "map_of [(''BTC'', quote 30000)] ''SOL'' = None" by simp
  have 1: "executeTrade [(''BTC'', halted)] ''BTC'' 7 Buy (Some 1) twoHoldings
     = (Alert ''Trading is currently unavailable for this symbol.'', twoHoldings)"
    using rejection_alerts_after_silent_guards
      [of "Some 1" "[(''BTC'', halted)]" "''BTC''" 7 Buy twoHoldings] ph
    by simp
  have 2: "executeTrade [(''BTC'', quote 30000)] ''BTC'' 7 Buy (Some 3) twoHoldings
     = (Alert ''Insufficient balance!'', twoHoldings)"
    using rejection_alerts_after_silent_guards
      [of "Some 3" "[(''BTC'', quote 30000)]" "''BTC''" 7 Buy twoHoldings] pq st
    by simp
  have 3: "executeTrade [(''BTC'', quote 30000)] ''BTC'' 7 Sell (Some 3) twoHoldings
     = (Alert ''Insufficient holdings!'', twoHoldings)"
    using rejection_alerts_after_silent_guards
      [of "Some 3" "[(''BTC'', quote 30000)]" "''BTC''" 7 Sell twoHoldings] pq st
    by simp
  have 4: "executeTrade [(''BTC'', quote 30000)] ''SOL'' 7 Sell (Some 3) twoHoldings
     = (Ignored, twoHoldings)"
    using rejection_alerts_after_silent_guards
      [of "Some 3" "[(''BTC'', quote 30000)]" "''SOL''" 7 Sell twoHoldings] un
    by simp
  have 5: "executeTrade [(''BTC'', quote 30000)] ''BTC'' 7 Sell (Some 0) twoHoldings
     = (Ignored, twoHoldings)"
    using rejection_alerts_after_silent_guards
      [of "Some 0" "[(''BTC'', quote 30000)]" "''BTC''" 7 Sell twoHoldings]
    by simp
  have 6: "fst (executeTrade [(''BTC'', quote 30000)] ''BTC'' 7 Buy (Some 2) twoHoldings) = Traded"
    using rejection_alerts_after_silent_guards
      [of "Some 2" "[(''BTC'', quote 30000)]" "''BTC''" 7 Buy twoHoldings] pq st
    by simp
  have 7: "fst (executeTrade [(''BTC'', quote 30000)] ''BTC'' 7 Sell (Some 2) twoHoldings) = Traded"
    using rejection_alerts_after_silent_guards
      [of "Some 2" "[(''BTC'', quote 30000)]" "''BTC''" 7 Sell twoHoldings] pq st
    by simp
  from 1 2 3 4 5 6 7 show ?thesis by blast
qed

section \<open>Facts about the price feed\<close>

lemma map_of_spread: "map_of (spread a b) = map_of a ++ map_of (rev b)"
  unfolding spread_def
proof (induction b arbitrary: a)
  case Nil
  show ?case by simp
next
  case (Cons x b)
  obtain k v where x: "x = (k, v)" by (cases x)
  have "map_of (fold (\<lambda>(k, v). AList.update k v) b (AList.update k v a))
          = map_of (AList.update k v a) ++ map_of (rev b)"
    by (rule Cons.IH)
  then show ?case
    by (simp add: x AList.update_conv' map_add_upd_left)
qed

lemma map_of_rev_None: "map_of (rev b) k = None \<longleftrightarrow> map_of b k = None"
  by (simp add: map_of_eq_None_iff)

lemma spread_keeps: "map_of b k = None \<Longrightarrow> map_of (spread a b) k = map_of a k"
  using map_of_rev_None [of b k] by (simp add: map_of_spread map_add_def)

lemma spread_defined:
  "map_of (spread a b) k = None \<longleftrightarrow> map_of a k = None \<and> map_of b k = None"
  by (simp add: map_of_spread map_of_rev_None conj_commute)

lemma spread_stays_defined: "map_of a k \<noteq> None \<Longrightarrow> map_of (spread a b) k \<noteq> None"
  by (simp add: spread_defined)

lemma list_all_spread:
  "list_all (\<lambda>(k, v). P v) a \<Longrightarrow> list_all (\<lambda>(k, v). P v) b \<Longrightarrow>
   list_all (\<lambda>(k, v). P v) (spread a b)"
  unfolding spread_def
proof (induction b arbitrary: a)
  case Nil
  then show ?case by simp
next
  case (Cons x b)
  obtain k v where x: "x = (k, v)" by (cases x)
  from Cons.prems have "P v" and b: "list_all (\<lambda>(k, v). P v) b" by (simp_all add: x)
  with Cons.prems(1) have "list_all (\<lambda>(k, v). P v) (AList.update k v a)"
    by (simp add: list_all_update)
  from Cons.IH [OF this b] show ?case by (simp add: x)
qed

lemma sorted_out_step:
  assumes "sorted_out data acc"
  shows "sorted_out data (quoteStep now data symbol acc)"
proof -
  obtain np ne nt where acc: "acc = (np, ne, nt)" by (cases acc)
  show ?thesis
  proof (cases "quotedUsd data (coinId symbol)")
    case None
    with assms show ?thesis
      by (simp add: acc sorted_out_def quoteStep_def AList.update_conv')
  next
    case (Some uc)
    obtain u cq where uc: "uc = (u, cq)" by (cases uc)
    from assms have "list_all (\<lambda>(k, pd). tradeable pd) np" by (simp add: acc sorted_out_def)
    then have "list_all (\<lambda>(k, pd). tradeable pd)
                 (AList.update symbol
                    \<lparr>price = u, change = (case usd_24h_change cq of Some c \<Rightarrow> c | None \<Rightarrow> 0),
                     ptype = ''crypto'', tradeable = True, pd_lastUpdate = now\<rparr> np)"
      by (rule list_all_update [where P = tradeable]) simp
    with assms Some show ?thesis
      by (simp add: acc uc sorted_out_def quoteStep_def AList.update_conv')
  qed
qed

lemma sorted_out_fold:
  "sorted_out data acc \<Longrightarrow> sorted_out data (fold (quoteStep now data) symbols acc)"
  by (induction symbols arbitrary: acc) (simp_all add: sorted_out_step)

lemma collectQuotes_cases:
  "(\<exists>data. sorted_out data (collectQuotes symbols now response)) \<or>
   fst (collectQuotes symbols now response) = []"
proof (cases response)
  case Threw
  then show ?thesis by (simp add: collectQuotes_def Let_def)
next
  case (Responded ok data)
  show ?thesis
  proof (cases ok)
    case False
    with Responded show ?thesis by (simp add: collectQuotes_def Let_def)
  next
    case True
    have "sorted_out data ([], [], [])" by (simp add: sorted_out_def)
    then have "sorted_out data (fold (quoteStep now data) cs ([], [], []))" for cs
      by (rule sorted_out_fold)
    with Responded True show ?thesis by (auto simp: collectQuotes_def Let_def)
  qed
qed

lemma collectQuotes_tradeable:
  "list_all (\<lambda>(k, pd). tradeable pd) (fst (collectQuotes symbols now response))"
  using collectQuotes_cases [of symbols now response]
  by (auto simp: sorted_out_def)

lemma collectQuotes_disjoint:
  assumes "map_of (fst (collectQuotes symbols now response)) k \<noteq> None"
  shows "map_of (fst (snd (collectQuotes symbols now response))) k = None"
proof -
  from assms have "fst (collectQuotes symbols now response) \<noteq> []" by auto
  with collectQuotes_cases [of symbols now response] obtain data
    where "sorted_out data (collectQuotes symbols now response)" by blast
  with assms show ?thesis unfolding sorted_out_def by blast
qed

lemma prices_doTick:
  "prices (doTick t m) = spread (prices m) (fst (collectQuotes (t_symbols t) (t_now t) (t_response t)))"
  by (cases "collectQuotes (t_symbols t) (t_now t) (t_response t)")
     (simp add: doTick_def fetchCryptoPrices_def spread_def)

lemma apiError_doTick:
  "apiError (doTick t m) =
     (if fst (collectQuotes (t_symbols t) (t_now t) (t_response t)) \<noteq> []
      then spread (apiError m) (fst (snd (collectQuotes (t_symbols t) (t_now t) (t_response t))))
      else apiError m)"
  by (cases "collectQuotes (t_symbols t) (t_now t) (t_response t)")
     (simp add: doTick_def fetchCryptoPrices_def)

lemma allTradeable_doTick: "allTradeable m \<Longrightarrow> allTradeable (doTick t m)"
  unfolding allTradeable_def prices_doTick
  by (rule list_all_spread [where P = tradeable]) (simp_all add: collectQuotes_tradeable)

lemma canTrade_allTradeable:
  assumes "allTradeable m"
  shows "canTrade (prices m) s \<longleftrightarrow> map_of (prices m) s \<noteq> None"
proof (cases "map_of (prices m) s")
  case None
  then show ?thesis by (simp add: canTrade_def)
next
  case (Some pd)
  from assms have "list_all (\<lambda>(k, pd). tradeable pd) (prices m)" by (simp add: allTradeable_def)
  then have "tradeable pd" using Some by (rule map_of_list_all [where P = tradeable])
  with Some show ?thesis by (simp add: canTrade_def)
qed

lemma unpriced_doTick:
  "map_of (prices (doTick t m)) s = None \<longleftrightarrow> map_of (prices m) s = None \<and> \<not> quotedBy t s"
  by (simp add: prices_doTick quotedBy_def spread_defined)

lemma unpriced_runTicks:
  "map_of (prices (runTicks ts m)) s = None \<longleftrightarrow>
     map_of (prices m) s = None \<and> (\<forall>t\<in>set ts. \<not> quotedBy t s)"
proof (induction ts arbitrary: m)
  case Nil
  show ?case by simp
next
  case (Cons t ts)
  show ?case by (simp add: Cons.IH unpriced_doTick)
qed

lemma allTradeable_runTicks: "allTradeable m \<Longrightarrow> allTradeable (runTicks ts m)"
  by (induction ts arbitrary: m) (simp_all add: allTradeable_doTick)

section \<open>The feed claims\<close>

lemmas feed_eval =
  doTick_def fetchCryptoPrices_def collectQuotes_def catalog_def quoteStep_def quotedUsd_def
  coinId_def coinIds_def spread_def initialMarket_def Let_def

lemma tickBoth_quotes:
  "collectQuotes (t_symbols tickBoth) (t_now tickBoth) (t_response tickBoth) =
     ([(''BTC'', \<lparr>price = 50000, change = 2, ptype = ''crypto'', tradeable = True, pd_lastUpdate = 10\<rparr>),
       (''ETH'', \<lparr>price = 3000, change = 0, ptype = ''crypto'', tradeable = True, pd_lastUpdate = 10\<rparr>)],
      [],
      [(''BTC'', 10), (''ETH'', 10)])"
  by (simp add: tickBoth_def feed_eval)

lemma tickEthOnly_quotes:
  "collectQuotes (t_symbols tickEthOnly) (t_now tickEthOnly) (t_response tickEthOnly) =
     ([(''ETH'', \<lparr>price = 3100, change = 1, ptype = ''crypto'', tradeable = True, pd_lastUpdate = 20\<rparr>)],
      [(''BTC'', ''Data Unavailable'')],
      [(''ETH'', 20)])"
  by (simp add: tickEthOnly_def feed_eval)

lemma both_then_ethOnly:
  "doTick tickEthOnly (doTick tickBoth initialMarket) =
     \<lparr>prices =
        [(''BTC'', \<lparr>price = 50000, change = 2, ptype = ''crypto'', tradeable = True, pd_lastUpdate = 10\<rparr>),
         (''ETH'', \<lparr>price = 3100, change = 1, ptype = ''crypto'', tradeable = True, pd_lastUpdate = 20\<rparr>)],
      chartData = [], loading = False,
      apiError = [(''BTC'', ''Data Unavailable'')],
      lastUpdate = [(''BTC'', 10), (''ETH'', 20)]\<rparr>"
  by (simp add: doTick_def fetchCryptoPrices_def tickBoth_quotes tickEthOnly_quotes
        spread_def initialMarket_def)

lemma ethOnly_then_both:
  "doTick tickBoth (doTick tickEthOnly initialMarket) =
     \<lparr>prices =
        [(''ETH'', \<lparr>price = 3000, change = 0, ptype = ''crypto'', tradeable = True, pd_lastUpdate = 10\<rparr>),
         (''BTC'', \<lparr>price = 50000, change = 2, ptype = ''crypto'', tradeable = True, pd_lastUpdate = 10\<rparr>)],
      chartData = [], loading = False,
      apiError = [(''BTC'', ''Data Unavailable'')],
      lastUpdate = [(''ETH'', 10), (''BTC'', 10)]\<rparr>"
  by (simp add: doTick_def fetchCryptoPrices_def tickBoth_quotes tickEthOnly_quotes
        spread_def initialMarket_def)

text \<open>
  C6 as stated fails: after a tick that quotes BTC and a tick whose answer lacks BTC, BTC is
  recorded as unavailable and \<open>canTrade\<close> still holds for it.
\<close>
theorem stale_quote_stays_tradeable_counterexample:
  "canTrade (prices (runTicks [tickBoth, tickEthOnly] initialMarket)) ''BTC'' \<and>
   \<not> quotedBy tickEthOnly ''BTC'' \<and>
   map_of (apiError (runTicks [tickBoth, tickEthOnly] initialMarket)) ''BTC''
     = Some ''Data Unavailable''"
  by (simp add: both_then_ethOnly canTrade_def quotedBy_def tickEthOnly_quotes)

text \<open>
  C6, amended. A symbol is tradeable if and only if some tick of the session so far has
  produced a successful quote for it; a tick that produces no quote for the symbol keeps
  the cached quote, and with it the symbol stays as tradeable as it was.
\<close>
theorem tradeable_once_quoted:
  "(canTrade (prices (runTicks ts initialMarket)) s \<longleftrightarrow> (\<exists>t\<in>set ts. quotedBy t s)) \<and>
   (\<not> quotedBy t s \<longrightarrow>
      map_of (prices (doTick t m)) s = map_of (prices m) s \<and>
      canTrade (prices (doTick t m)) s = canTrade (prices m) s)"
proof -
  have "allTradeable initialMarket" by (simp add: allTradeable_def initialMarket_def)
  then have "allTradeable (runTicks ts initialMarket)" by (rule allTradeable_runTicks)
  then have "canTrade (prices (runTicks ts initialMarket)) s
               \<longleftrightarrow> map_of (prices (runTicks ts initialMarket)) s \<noteq> None"
    by (rule canTrade_allTradeable)
  also have "\<dots> \<longleftrightarrow> (\<exists>t\<in>set ts. quotedBy t s)"
    by (simp add: unpriced_runTicks initialMarket_def)
  finally have a: "canTrade (prices (runTicks ts initialMarket)) s \<longleftrightarrow> (\<exists>t\<in>set ts. quotedBy t s)" .
  have b: "map_of (prices (doTick t m)) s = map_of (prices m) s" if "\<not> quotedBy t s"
    using that by (simp add: prices_doTick quotedBy_def spread_keeps)
  then have c: "canTrade (prices (doTick t m)) s = canTrade (prices m) s" if "\<not> quotedBy t s"
    using that by (simp add: canTrade_def)
  from a b c show ?thesis by blast
qed

text \<open>C6, amended, at the two ticks of the counterexample.\<close>
theorem tradeable_once_quoted_witness:
  "canTrade (prices (runTicks [tickBoth, tickEthOnly] initialMarket)) ''BTC'' \<and>
   quotedBy tickBoth ''BTC'' \<and>
   map_of (prices (doTick tickEthOnly (doTick tickBoth initialMarket))) ''BTC''
     = map_of (prices (doTick tickBoth initialMarket)) ''BTC''"
proof -
  have q: "quotedBy tickBoth ''BTC''" by (simp add: quotedBy_def tickBoth_quotes)
  have n: "\<not> quotedBy tickEthOnly ''BTC''" by (simp add: quotedBy_def tickEthOnly_quotes)
  from tradeable_once_quoted [of "[tickBoth, tickEthOnly]" "''BTC''" tickEthOnly "doTick tickBoth initialMarket"]
    q n
  show ?thesis by simp
qed

text \<open>
  C7 at a request that throws and at one that is answered with a failure status: the local
  \<open>newErrors\<close> holds an error for each requested symbol, and no error reaches the state
  (nor is \<open>loading\<close> reset).
\<close>
theorem failed_request_records_no_error:
  "fst (snd (collectQuotes [''BTC'', ''ETH''] 5 Threw))
     = [(''BTC'', ''Network Error''), (''ETH'', ''Network Error'')] \<and>
   apiError (fetchCryptoPrices [''BTC'', ''ETH''] 5 Threw initialMarket) = [] \<and>
   fst (snd (collectQuotes [''BTC'', ''ETH''] 5 (Responded False [])))
     = [(''BTC'', ''API Error''), (''ETH'', ''API Error'')] \<and>
   apiError (fetchCryptoPrices [''BTC'', ''ETH''] 5 (Responded False []) initialMarket) = [] \<and>
   loading (fetchCryptoPrices [''BTC'', ''ETH''] 5 Threw initialMarket) = True"
  by (simp add: feed_eval)

text \<open>
  C8 as stated fails: the error recorded for BTC by a tick whose answer lacks BTC is still
  recorded after the next tick has quoted BTC.
\<close>
theorem error_survives_fresh_quote_counterexample:
  "map_of (apiError (runTicks [tickEthOnly] initialMarket)) ''BTC'' = Some ''Data Unavailable'' \<and>
   quotedBy tickBoth ''BTC'' \<and>
   map_of (prices (runTicks [tickEthOnly, tickBoth] initialMarket)) ''BTC'' = Some
     \<lparr>price = 50000, change = 2, ptype = ''crypto'', tradeable = True, pd_lastUpdate = 10\<rparr> \<and>
   map_of (apiError (runTicks [tickEthOnly, tickBoth] initialMarket)) ''BTC''
     = Some ''Data Unavailable''"
proof -
  have "map_of (apiError (doTick tickEthOnly initialMarket)) ''BTC'' = Some ''Data Unavailable''"
    by (simp add: doTick_def fetchCryptoPrices_def tickEthOnly_quotes spread_def initialMarket_def)
  then show ?thesis
    by (simp add: ethOnly_then_both quotedBy_def tickBoth_quotes)
qed

text \<open>
  C8, amended. A tick that produces a successful quote for a symbol leaves the error recorded
  for that symbol as it was, and no tick removes a recorded error.
\<close>
theorem errors_are_never_cleared:
  "(quotedBy t s \<longrightarrow> map_of (apiError (doTick t m)) s = map_of (apiError m) s) \<and>
   (map_of (apiError m) s \<noteq> None \<longrightarrow> map_of (apiError (doTick t m)) s \<noteq> None)"
proof -
  have a: "map_of (apiError (doTick t m)) s = map_of (apiError m) s" if "quotedBy t s"
  proof -
    from that have "map_of (fst (snd (collectQuotes (t_symbols t) (t_now t) (t_response t)))) s = None"
      unfolding quotedBy_def by (rule collectQuotes_disjoint)
    then show ?thesis by (simp add: apiError_doTick spread_keeps)
  qed
  have b: "map_of (apiError (doTick t m)) s \<noteq> None" if "map_of (apiError m) s \<noteq> None"
  proof (cases "fst (collectQuotes (t_symbols t) (t_now t) (t_response t)) = []")
    case True
    with that show ?thesis by (simp add: apiError_doTick)
  next
    case False
    from that have "map_of (spread (apiError m)
        (fst (snd (collectQuotes (t_symbols t) (t_now t) (t_response t))))) s \<noteq> None"
      by (rule spread_stays_defined)
    with False show ?thesis by (simp add: apiError_doTick)
  qed
  from a b show ?thesis by blast
qed

text \<open>C8, amended, at the two ticks of the counterexample.\<close>
theorem errors_are_never_cleared_witness:
  "quotedBy tickBoth ''BTC'' \<and>
   map_of (apiError (doTick tickEthOnly initialMarket)) ''BTC'' = Some ''Data Unavailable'' \<and>
   map_of (apiError (doTick tickBoth (doTick tickEthOnly initialMarket))) ''BTC''
     = Some ''Data Unavailable''"
proof -
  have q: "quotedBy tickBoth ''BTC''" by (simp add: quotedBy_def tickBoth_quotes)
  have e: "map_of (apiError (doTick tickEthOnly initialMarket)) ''BTC'' = Some ''Data Unavailable''"
    by (simp add: doTick_def fetchCryptoPrices_def tickEthOnly_quotes spread_def initialMarket_def)
  from errors_are_never_cleared [of tickBoth "''BTC''" "doTick tickEthOnly initialMarket"] q e
  show ?thesis by simp
qed

section \<open>Facts about the price history\<close>

lemma length_slice_last: "length (slice_last n xs) \<le> n"
  by (simp add: slice_last_def)

lemma slice_last_full:
  "length xs = 100 \<Longrightarrow> slice_last 100 (xs @ [p]) = tl xs @ [p]"
  by (cases xs) (simp_all add: slice_last_def)

lemma slice_last_short:
  "length xs < 100 \<Longrightarrow> slice_last 100 (xs @ [p]) = xs @ [p]"
  by (simp add: slice_last_def)

lemma chartStep_lookup:
  "map_of (chartStep fmt now (k, pd) prev) s =
     (if s = k \<and> price pd > 0
      then Some (slice_last 100 (existingOf prev k @ [pointOf fmt now pd]))
      else map_of prev s)"
  by (simp add: chartStep_def Let_def AList.update_conv' existingOf_def pointOf_def)

lemma fold_chartStep_other:
  "map_of ps s = None \<Longrightarrow> map_of (fold (chartStep fmt now) ps chart) s = map_of chart s"
proof (induction ps arbitrary: chart)
  case Nil
  show ?case by simp
next
  case (Cons x ps)
  obtain k pd where x: "x = (k, pd)" by (cases x)
  from Cons.prems have ne: "s \<noteq> k" and rest: "map_of ps s = None"
    by (auto simp: x split: if_splits)
  from Cons.IH [OF rest] ne show ?case by (simp add: x chartStep_lookup)
qed

lemma fold_chartStep_lookup:
  "distinct (map fst ps) \<Longrightarrow> map_of ps s = Some pd \<Longrightarrow>
   map_of (fold (chartStep fmt now) ps chart) s =
     (if price pd > 0
      then Some (slice_last 100 (existingOf chart s @ [pointOf fmt now pd]))
      else map_of chart s)"
proof (induction ps arbitrary: chart)
  case Nil
  then show ?case by simp
next
  case (Cons x ps)
  obtain k v where x: "x = (k, v)" by (cases x)
  show ?case
  proof (cases "s = k")
    case True
    with Cons.prems have v: "v = pd" and "k \<notin> fst ` set ps" by (auto simp: x)
    then have "map_of ps s = None" using True by (simp add: map_of_eq_None_iff)
    then have "map_of (fold (chartStep fmt now) ps (chartStep fmt now (k, v) chart)) s
                 = map_of (chartStep fmt now (k, v) chart) s"
      by (rule fold_chartStep_other)
    then show ?thesis by (simp add: x v True chartStep_lookup)
  next
    case False
    with Cons.prems have d: "distinct (map fst ps)" and l: "map_of ps s = Some pd"
      by (auto simp: x)
    have "existingOf (chartStep fmt now (k, v) chart) s = existingOf chart s"
      using False by (simp add: existingOf_def chartStep_lookup)
    with Cons.IH [OF d l, of "chartStep fmt now (k, v) chart"] False
    show ?thesis by (simp add: x chartStep_lookup)
  qed
qed

lemma chartBounded_step: "chartBounded chart \<Longrightarrow> chartBounded (chartStep fmt now x chart)"
proof -
  assume b: "chartBounded chart"
  obtain k pd where x: "x = (k, pd)" by (cases x)
  have "list_all (\<lambda>(k, pts). length pts \<le> 100)
          (AList.update k (slice_last 100 (existingOf chart k @ [pointOf fmt now pd])) chart)"
    using b unfolding chartBounded_def
    by (rule list_all_update [where P = "\<lambda>pts. length pts \<le> 100"]) (rule length_slice_last)
  with b show ?thesis
    by (simp add: x chartStep_def Let_def chartBounded_def existingOf_def pointOf_def)
qed

lemma chartBounded_fold:
  "chartBounded chart \<Longrightarrow> chartBounded (fold (chartStep fmt now) ps chart)"
  by (induction ps arbitrary: chart) (simp_all add: chartBounded_step)

lemma chartBounded_recordHistory:
  "chartBounded chart \<Longrightarrow> chartBounded (recordHistory fmt now ps chart)"
  by (simp add: recordHistory_def chartBounded_fold)

lemma chartBounded_runHistory:
  "chartBounded chart \<Longrightarrow> chartBounded (runHistory fmt runs chart)"
  by (induction fmt runs chart rule: runHistory.induct) (simp_all add: chartBounded_recordHistory)

lemma chartBounded_lookup:
  "chartBounded chart \<Longrightarrow> map_of chart s = Some pts \<Longrightarrow> length pts \<le> 100"
  unfolding chartBounded_def by (rule map_of_list_all [where P = "\<lambda>pts. length pts \<le> 100"])

text \<open>
  C9. From an empty chart, no sequence ever holds more than 100 points; a run of the effect
  appends one point to the sequence of each symbol whose quote has a price above zero and
  leaves every other sequence alone; appending to a sequence of 100 points drops exactly the
  oldest one and keeps the others in order, and appending to a shorter one drops nothing.
\<close>
theorem history_is_bounded_fifo:
  "(\<forall>pts. map_of (runHistory fmt runs []) symbol = Some pts \<longrightarrow> length pts \<le> 100) \<and>
   (distinct (map fst ps) \<longrightarrow>
      map_of (recordHistory fmt now ps chart) symbol =
        (case map_of ps symbol of
           None \<Rightarrow> map_of chart symbol
         | Some pd \<Rightarrow>
             if price pd > 0
             then Some (slice_last 100 (existingOf chart symbol @ [pointOf fmt now pd]))
             else map_of chart symbol)) \<and>
   (length existing = 100 \<longrightarrow>
      slice_last 100 (existing @ [p]) = tl existing @ [p] \<and>
      length (slice_last 100 (existing @ [p])) = 100) \<and>
   (length existing < 100 \<longrightarrow> slice_last 100 (existing @ [p]) = existing @ [p])"
proof -
  have "chartBounded []" by (simp add: chartBounded_def)
  then have "chartBounded (runHistory fmt runs [])" by (rule chartBounded_runHistory)
  then have a: "length pts \<le> 100" if "map_of (runHistory fmt runs []) symbol = Some pts" for pts
    using that by (rule chartBounded_lookup)
  have b: "map_of (recordHistory fmt now ps chart) symbol =
        (case map_of ps symbol of
           None \<Rightarrow> map_of chart symbol
         | Some pd \<Rightarrow>
             if price pd > 0
             then Some (slice_last 100 (existingOf chart symbol @ [pointOf fmt now pd]))
             else map_of chart symbol)" if d: "distinct (map fst ps)"
  proof (cases "map_of ps symbol")
    case None
    then show ?thesis by (simp add: recordHistory_def fold_chartStep_other)
  next
    case (Some pd)
    then have "ps \<noteq> []" by auto
    with Some fold_chartStep_lookup [OF d Some] show ?thesis by (simp add: recordHistory_def)
  qed
  have c: "slice_last 100 (existing @ [p]) = tl existing @ [p] \<and>
           length (slice_last 100 (existing @ [p])) = 100" if "length existing = 100"
    using that by (simp add: slice_last_full)
  have e: "slice_last 100 (existing @ [p]) = existing @ [p]" if "length existing < 100"
    using that by (rule slice_last_short)
  from a b c e show ?thesis by blast
qed

text \<open>C9 at a full sequence for BTC and a quote of price zero for XRP.\<close>
theorem history_is_bounded_fifo_witness:
  "map_of (recordHistory (\<lambda>t. ''12:00:00'') 7 pricesNow [(''BTC'', hundred)]) ''BTC''
     = Some (tl hundred @ [\<lparr>hp_time = ''12:00:00'', hp_price = 50000, hp_timestamp = 7\<rparr>]) \<and>
   map_of (recordHistory (\<lambda>t. ''12:00:00'') 7 pricesNow [(''BTC'', hundred)]) ''XRP'' = None \<and>
   length (tl hundred @ [\<lparr>hp_time = ''12:00:00'', hp_price = 50000, hp_timestamp = 7\<rparr>]) = 100 \<and>
   map_of (runHistory (\<lambda>t. ''12:00:00'') [(7, pricesNow)] []) ''BTC''
     = Some [\<lparr>hp_time = ''12:00:00'', hp_price = 50000, hp_timestamp = 7\<rparr>]"
proof -
  let ?p = "\<lparr>hp_time = ''12:00:00'', hp_price = 50000, hp_timestamp = 7\<rparr>"
  have d: "distinct (map fst pricesNow)" by (simp add: pricesNow_def)
  have l: "length hundred = 100" by (simp add: hundred_def)
  have btc: "map_of pricesNow ''BTC'' = Some (quote 50000)"
    and xrp: "map_of pricesNow ''XRP'' = Some (quote 0)"
    by (simp_all add: pricesNow_def)
  have ex: "existingOf [(''BTC'', hundred)] ''BTC'' = hundred"
    "map_of [(''BTC'', hundred)] ''XRP'' = None"
    by (simp_all add: existingOf_def)
  have pt: "pointOf (\<lambda>t. ''12:00:00'') 7 (quote 50000) = ?p"
    by (simp add: pointOf_def quote_def)
  have one: "map_of (runHistory (\<lambda>t. ''12:00:00'') [(7, pricesNow)] []) ''BTC'' = Some [?p]"
    by (simp add: recordHistory_def pricesNow_def chartStep_def quote_def slice_last_def Let_def)
  from history_is_bounded_fifo [of "\<lambda>t. ''12:00:00''" "[(7, pricesNow)]" "''BTC''" pricesNow 7
      "[(''BTC'', hundred)]" hundred ?p] d l btc ex pt
  have "map_of (recordHistory (\<lambda>t. ''12:00:00'') 7 pricesNow [(''BTC'', hundred)]) ''BTC''
          = Some (tl hundred @ [?p])"
    and "length (tl hundred @ [?p]) = 100"
    by (simp_all add: quote_def)
  moreover
  from history_is_bounded_fifo [of "\<lambda>t. ''12:00:00''" "[(7, pricesNow)]" "''XRP''" pricesNow 7
      "[(''BTC'', hundred)]" hundred ?p] d xrp ex
  have "map_of (recordHistory (\<lambda>t. ''12:00:00'') 7 pricesNow [(''BTC'', hundred)]) ''XRP'' = None"
    by (simp add: quote_def)
  ultimately show ?thesis using one by simp
qed

end
